theory Spec2Isabelle
  imports Main
begin

section \<open>The poll-service client (api/client.py)\<close>

text \<open>
  The module consists of the constant \<open>BASE_URL\<close> and four functions. Each function
  builds a URL and a payload, makes one call into the HTTP library \<open>requests\<close>, and
  turns the outcome into a return value. The module has no variable that any function
  assigns to, so the state threaded through the model holds only what lies outside the
  module: the remote side, the requests handed to the library, and standard output.

  The library is not part of the repository. The model takes from it what the module
  relies on: \<open>requests.get\<close> and \<open>requests.post\<close> either return a response or raise a
  subclass of \<open>RequestException\<close>; \<open>raise_for_status\<close> raises \<open>HTTPError\<close> exactly
  for the statuses 400 to 599; \<open>response.json()\<close> raises the library's own
  \<open>JSONDecodeError\<close>, a subclass of \<open>RequestException\<close>, on a body that is not JSON.
  The trace \<open>sent\<close> records the calls into the library. What one such call puts on
  the wire is the library's business: it follows redirects, so one call can send
  several HTTP requests; \<open>follow\<close> below models that. The interpreter's configurable limit on
  the number of digits of an integer converted to text is not modelled.
\<close>

subsection \<open>Python values\<close>

text \<open>
  What \<open>response.json()\<close> can return and what the functions hand back. \<open>PyNone\<close> is
  Python's \<open>None\<close>. A dict is an association list in insertion order; a lookup takes
  the first binding of a key. A float is carried as its literal: the module does no
  arithmetic on it.
\<close>

datatype pyvalue =
    PyNone
  | PyBool bool
  | PyInt int
  | PyFloat string
  | PyStr string
  | PyList "pyvalue list"
  | PyDict "(string \<times> pyvalue) list"

subsection \<open>The interface of the HTTP library\<close>

datatype http_method = GET | POST

text \<open>
  The arguments of one call \<open>requests.get(url)\<close> or
  \<open>requests.post(url, headers=..., data=..., json=...)\<close>. A keyword argument that is
  not passed is \<open>None\<close>. The library sends \<open>data\<close> given as a dict as URL-encoded
  form fields and \<open>json\<close> as a JSON body.
\<close>

record call =
  c_method :: http_method
  c_url :: string
  c_headers :: "(string \<times> string) list option"
  c_data :: "pyvalue option"
  c_json :: "pyvalue option"

text \<open>
  The \<open>Response\<close> object. \<open>resp_text\<close> is its attribute \<open>text\<close>; \<open>decoded\<close> is what
  \<open>response.json()\<close> yields, \<open>None\<close> when the body is not JSON.
\<close>

record response =
  status_code :: nat
  reason :: string
  url :: string
  resp_text :: string
  decoded :: "pyvalue option"

text \<open>
  What the remote side does with one call: the request fails before it completes
  (the library raises a subclass of \<open>RequestException\<close> with a message), or it
  completes with a response.
\<close>

datatype reply = Failed string | Completed response

text \<open>
  The exceptions that occur. \<open>HTTPError\<close> carries its message and \<open>e.response\<close>.
  \<open>RequestException\<close> stands for every other subclass raised by a failed transport
  (ConnectionError, Timeout, ...). \<open>JSONDecodeError\<close> is the one of
  \<open>requests.exceptions\<close>, a subclass of \<open>RequestException\<close>.
\<close>

datatype exn =
    HTTPError string response
  | RequestException string
  | JSONDecodeError string
  | AttributeError string

fun is_HTTPError :: "exn \<Rightarrow> bool" where
  "is_HTTPError (HTTPError m r) = True"
| "is_HTTPError e = False"

fun is_RequestException :: "exn \<Rightarrow> bool" where
  "is_RequestException (HTTPError m r) = True"
| "is_RequestException (RequestException m) = True"
| "is_RequestException (JSONDecodeError m) = True"
| "is_RequestException (AttributeError m) = False"

fun str_exn :: "exn \<Rightarrow> string" where
  "str_exn (HTTPError m r) = m"
| "str_exn (RequestException m) = m"
| "str_exn (JSONDecodeError m) = m"
| "str_exn (AttributeError m) = m"

fun exn_response_text :: "exn \<Rightarrow> string" where
  "exn_response_text (HTTPError m r) = resp_text r"
| "exn_response_text e = []"

subsection \<open>Decimal text of an integer\<close>

fun digits :: "nat \<Rightarrow> string" where
  "digits n =
     (if n < 10 then [char_of (48 + n)]
      else digits (n div 10) @ [char_of (48 + n mod 10)])"

declare digits.simps [simp del]

definition str_int :: "int \<Rightarrow> string" where
  "str_int i = (if i < 0 then CHR ''-'' # digits (nat (- i)) else digits (nat i))"

subsection \<open>The world outside the module\<close>

text \<open>
  \<open>net\<close> is the state of the remote side, \<open>sent\<close> the calls made into the library so
  far, \<open>stdout\<close> the lines printed so far. The remote side is a parameter: a
  function from its state and a call to a reply and its next state.
\<close>

record 'n world =
  net :: 'n
  sent :: "call list"
  stdout :: "string list"

type_synonym 'n remote = "'n \<Rightarrow> call \<Rightarrow> reply \<times> 'n"

definition print :: "string \<Rightarrow> 'n world \<Rightarrow> 'n world" where
  "print line w = w\<lparr>stdout := stdout w @ [line]\<rparr>"

definition requests_request :: "'n remote \<Rightarrow> call \<Rightarrow> 'n world \<Rightarrow> (exn + response) \<times> 'n world" where
  "requests_request remote c w =
     (case remote (net w) c of
        (Failed msg, n') \<Rightarrow> (Inl (RequestException msg), w\<lparr>net := n', sent := sent w @ [c]\<rparr>)
      | (Completed r, n') \<Rightarrow> (Inr r, w\<lparr>net := n', sent := sent w @ [c]\<rparr>))"

definition requests_post ::
  "'n remote \<Rightarrow> string \<Rightarrow> (string \<times> string) list option \<Rightarrow> pyvalue option \<Rightarrow> pyvalue option
     \<Rightarrow> 'n world \<Rightarrow> (exn + response) \<times> 'n world" where
  "requests_post remote u hs d j =
     requests_request remote
       \<lparr>c_method = POST, c_url = u, c_headers = hs, c_data = d, c_json = j\<rparr>"

definition requests_get :: "'n remote \<Rightarrow> string \<Rightarrow> 'n world \<Rightarrow> (exn + response) \<times> 'n world" where
  "requests_get remote u =
     requests_request remote
       \<lparr>c_method = GET, c_url = u, c_headers = None, c_data = None, c_json = None\<rparr>"

text \<open>
  \<open>Response.raise_for_status\<close> raises \<open>HTTPError\<close> for a status from 400 to 599 and
  returns otherwise.
\<close>

definition raise_for_status :: "response \<Rightarrow> exn + unit" where
  "raise_for_status r =
     (if 400 \<le> status_code r \<and> status_code r < 500
      then Inl (HTTPError (digits (status_code r) @ '' Client Error: '' @ reason r
                            @ '' for url: '' @ url r) r)
      else if 500 \<le> status_code r \<and> status_code r < 600
      then Inl (HTTPError (digits (status_code r) @ '' Server Error: '' @ reason r
                            @ '' for url: '' @ url r) r)
      else Inr ())"

definition response_json :: "response \<Rightarrow> exn + pyvalue" where
  "response_json r =
     (case decoded r of
        None \<Rightarrow> Inl (JSONDecodeError ''Expecting value'')
      | Some v \<Rightarrow> Inr v)"

text \<open>
  The method call \<open>v.get(key)\<close>: only a dict has the attribute. The texts of the
  decoding error and of the attribute error are shortened; nothing depends on them.
\<close>

fun py_get :: "pyvalue \<Rightarrow> string \<Rightarrow> exn + pyvalue" where
  "py_get (PyDict kvs) k = (case map_of kvs k of None \<Rightarrow> Inr PyNone | Some v \<Rightarrow> Inr v)"
| "py_get v k = Inl (AttributeError ''object has no attribute get'')"

subsection \<open>The module\<close>

definition BASE_URL :: string where
  "BASE_URL = ''http://localhost:8000''"

text \<open>
  Each function is its \<open>try\<close> body followed by its two \<open>except\<close> clauses. An
  exception that neither clause catches leaves the function: the result \<open>Inl e\<close>.
\<close>

definition register_user :: "'n remote \<Rightarrow> string \<Rightarrow> string \<Rightarrow> 'n world \<Rightarrow> (exn + pyvalue) \<times> 'n world" where
  "register_user remote username password w =
     (let u = BASE_URL @ ''/register'';
          payload = PyDict [(''username'', PyStr username), (''password'', PyStr password)];
          (tried, w1) =
            (case requests_post remote u None None (Some payload) w of
               (Inl e, w') \<Rightarrow> (Inl e, w')
             | (Inr response, w') \<Rightarrow>
                 (case raise_for_status response of
                    Inl e \<Rightarrow> (Inl e, w')
                  | Inr _ \<Rightarrow> (response_json response, w')))
      in case tried of
           Inr v \<Rightarrow> (Inr v, w1)
         | Inl e \<Rightarrow>
             if is_HTTPError e then
               (Inr PyNone,
                print (''Response content: '' @ exn_response_text e)
                  (print (''HTTP error occurred during registration: '' @ str_exn e) w1))
             else if is_RequestException e then
               (Inr PyNone,
                print (''An unexpected error occurred during registration: '' @ str_exn e) w1)
             else (Inl e, w1))"

definition login_user :: "'n remote \<Rightarrow> string \<Rightarrow> string \<Rightarrow> 'n world \<Rightarrow> (exn + pyvalue) \<times> 'n world" where
  "login_user remote username password w =
     (let u = BASE_URL @ ''/login'';
          payload = PyDict [(''username'', PyStr username), (''password'', PyStr password)];
          (tried, w1) =
            (case requests_post remote u None (Some payload) None w of
               (Inl e, w') \<Rightarrow> (Inl e, w')
             | (Inr response, w') \<Rightarrow>
                 (case raise_for_status response of
                    Inl e \<Rightarrow> (Inl e, w')
                  | Inr _ \<Rightarrow>
                      (case response_json response of
                         Inl e \<Rightarrow> (Inl e, w')
                       | Inr v \<Rightarrow> (py_get v ''access_token'', w'))))
      in case tried of
           Inr v \<Rightarrow> (Inr v, w1)
         | Inl e \<Rightarrow>
             if is_HTTPError e then
               (Inr PyNone,
                print (''Response content: '' @ exn_response_text e)
                  (print (''HTTP error occurred during login: '' @ str_exn e) w1))
             else if is_RequestException e then
               (Inr PyNone,
                print (''An unexpected error occurred during login: '' @ str_exn e) w1)
             else (Inl e, w1))"

definition create_poll ::
  "'n remote \<Rightarrow> string \<Rightarrow> string list \<Rightarrow> string \<Rightarrow> 'n world \<Rightarrow> (exn + pyvalue) \<times> 'n world" where
  "create_poll remote question options token w =
     (let u = BASE_URL @ ''/polls'';
          headers = [(''Authorization'', ''Bearer '' @ token)];
          payload = PyDict [(''question'', PyStr question),
                            (''options'', PyList (map PyStr options))];
          (tried, w1) =
            (case requests_post remote u (Some headers) None (Some payload) w of
               (Inl e, w') \<Rightarrow> (Inl e, w')
             | (Inr response, w') \<Rightarrow>
                 (case raise_for_status response of
                    Inl e \<Rightarrow> (Inl e, w')
                  | Inr _ \<Rightarrow> (response_json response, w')))
      in case tried of
           Inr v \<Rightarrow> (Inr v, w1)
         | Inl e \<Rightarrow>
             if is_HTTPError e then
               (Inr PyNone,
                print (''Response content: '' @ exn_response_text e)
                  (print (''HTTP error occurred during poll creation: '' @ str_exn e) w1))
             else if is_RequestException e then
               (Inr PyNone,
                print (''An unexpected error occurred during poll creation: '' @ str_exn e) w1)
             else (Inl e, w1))"

text \<open>
  \<open>get_polls(skip=0, limit=10)\<close>: an argument the caller omits is \<open>None\<close> here and
  takes its default.
\<close>

definition get_polls ::
  "'n remote \<Rightarrow> int option \<Rightarrow> int option \<Rightarrow> 'n world \<Rightarrow> (exn + pyvalue) \<times> 'n world" where
  "get_polls remote skip_arg limit_arg w =
     (let skip = (case skip_arg of None \<Rightarrow> 0 | Some s \<Rightarrow> s);
          limit = (case limit_arg of None \<Rightarrow> 10 | Some l \<Rightarrow> l);
          u = BASE_URL @ ''/polls?skip='' @ str_int skip @ ''&limit='' @ str_int limit;
          (tried, w1) =
            (case requests_get remote u w of
               (Inl e, w') \<Rightarrow> (Inl e, w')
             | (Inr response, w') \<Rightarrow>
                 (case raise_for_status response of
                    Inl e \<Rightarrow> (Inl e, w')
                  | Inr _ \<Rightarrow> (response_json response, w')))
      in case tried of
           Inr v \<Rightarrow> (Inr v, w1)
         | Inl e \<Rightarrow>
             if is_HTTPError e then
               (Inr PyNone,
                print (''Response content: '' @ exn_response_text e)
                  (print (''HTTP error occurred while fetching polls: '' @ str_exn e) w1))
             else if is_RequestException e then
               (Inr PyNone,
                print (''An unexpected error occurred while fetching polls: '' @ str_exn e) w1)
             else (Inl e, w1))"

subsection \<open>Calls of the module\<close>

text \<open>
  A call of one of the four functions with its arguments, and its execution. This is
  how a statement ranges over "any of the four operations".
\<close>

datatype operation =
    Register string string
  | Login string string
  | CreatePoll string "string list" string
  | GetPolls "int option" "int option"

fun run :: "'n remote \<Rightarrow> operation \<Rightarrow> 'n world \<Rightarrow> (exn + pyvalue) \<times> 'n world" where
  "run remote (Register username password) w = register_user remote username password w"
| "run remote (Login username password) w = login_user remote username password w"
| "run remote (CreatePoll question options token) w = create_poll remote question options token w"
| "run remote (GetPolls skip_arg limit_arg) w = get_polls remote skip_arg limit_arg w"

text \<open>Two calls are calls of the same function, whatever their arguments.\<close>

fun same_function :: "operation \<Rightarrow> operation \<Rightarrow> bool" where
  "same_function (Register u p) (Register u' p') = True"
| "same_function (Login u p) (Login u' p') = True"
| "same_function (CreatePoll q os t) (CreatePoll q' os' t') = True"
| "same_function (GetPolls s l) (GetPolls s' l') = True"
| "same_function a b = False"

subsection \<open>What a call does, read off its reply\<close>

text \<open>
  The four functions share one shape. These functions state it once, as a function of
  the reply alone: the value returned (\<open>returned\<close>, and \<open>returned_token\<close> for
  \<open>login_user\<close>), the lines printed (\<open>printed\<close>), and the call handed to the library
  (\<open>request_of\<close>). They are not part of the module; the lemmas \<open>register_user_reply\<close>
  to \<open>run_reply\<close> below prove that the module's functions compute exactly this.
\<close>

definition returned :: "reply \<Rightarrow> exn + pyvalue" where
  "returned rep =
     (case rep of
        Failed msg \<Rightarrow> Inr PyNone
      | Completed r \<Rightarrow>
          (case raise_for_status r of
             Inl e \<Rightarrow> Inr PyNone
           | Inr _ \<Rightarrow> (case decoded r of None \<Rightarrow> Inr PyNone | Some v \<Rightarrow> Inr v)))"

definition returned_token :: "reply \<Rightarrow> exn + pyvalue" where
  "returned_token rep =
     (case rep of
        Failed msg \<Rightarrow> Inr PyNone
      | Completed r \<Rightarrow>
          (case raise_for_status r of
             Inl e \<Rightarrow> Inr PyNone
           | Inr _ \<Rightarrow>
               (case decoded r of None \<Rightarrow> Inr PyNone | Some v \<Rightarrow> py_get v ''access_token'')))"

definition printed :: "string \<Rightarrow> reply \<Rightarrow> string list" where
  "printed what rep =
     (case rep of
        Failed msg \<Rightarrow> [''An unexpected error occurred '' @ what @ '': '' @ msg]
      | Completed r \<Rightarrow>
          (case raise_for_status r of
             Inl e \<Rightarrow> [''HTTP error occurred '' @ what @ '': '' @ str_exn e,
                       ''Response content: '' @ resp_text r]
           | Inr _ \<Rightarrow>
               (case response_json r of
                  Inl e \<Rightarrow> [''An unexpected error occurred '' @ what @ '': '' @ str_exn e]
                | Inr v \<Rightarrow> [])))"

fun request_of :: "operation \<Rightarrow> call" where
  "request_of (Register username password) =
     \<lparr>c_method = POST, c_url = BASE_URL @ ''/register'', c_headers = None, c_data = None,
      c_json = Some (PyDict [(''username'', PyStr username), (''password'', PyStr password)])\<rparr>"
| "request_of (Login username password) =
     \<lparr>c_method = POST, c_url = BASE_URL @ ''/login'', c_headers = None,
      c_data = Some (PyDict [(''username'', PyStr username), (''password'', PyStr password)]),
      c_json = None\<rparr>"
| "request_of (CreatePoll question options token) =
     \<lparr>c_method = POST, c_url = BASE_URL @ ''/polls'',
      c_headers = Some [(''Authorization'', ''Bearer '' @ token)], c_data = None,
      c_json = Some (PyDict [(''question'', PyStr question),
                             (''options'', PyList (map PyStr options))])\<rparr>"
| "request_of (GetPolls skip_arg limit_arg) =
     \<lparr>c_method = GET,
      c_url = BASE_URL @ ''/polls?skip='' @ str_int (case skip_arg of None \<Rightarrow> 0 | Some s \<Rightarrow> s)
              @ ''&limit='' @ str_int (case limit_arg of None \<Rightarrow> 10 | Some l \<Rightarrow> l),
      c_headers = None, c_data = None, c_json = None\<rparr>"

fun result_of :: "operation \<Rightarrow> reply \<Rightarrow> exn + pyvalue" where
  "result_of (Login username password) rep = returned_token rep"
| "result_of op rep = returned rep"

fun context_of :: "operation \<Rightarrow> string" where
  "context_of (Register username password) = ''during registration''"
| "context_of (Login username password) = ''during login''"
| "context_of (CreatePoll question options token) = ''during poll creation''"
| "context_of (GetPolls skip_arg limit_arg) = ''while fetching polls''"

subsection \<open>Shapes of returned values\<close>

text \<open>
  A sequence of at most \<open>n\<close> records, and a JSON object that has a field \<open>k\<close>.
  No other value has a field.
\<close>

fun at_most_records :: "nat \<Rightarrow> pyvalue \<Rightarrow> bool" where
  "at_most_records n (PyList ps) = (length ps \<le> n)"
| "at_most_records n v = False"

fun has_field :: "pyvalue \<Rightarrow> string \<Rightarrow> bool" where
  "has_field (PyDict kvs) k = (k \<in> set (map fst kvs))"
| "has_field v k = False"

subsection \<open>Concrete remote sides\<close>

text \<open>A remote side without state that gives every call the same reply.\<close>

definition always :: "reply \<Rightarrow> unit remote" where
  "always rep n c = (rep, n)"

definition world0 :: "unit world" where
  "world0 = \<lparr>net = (), sent = [], stdout = []\<rparr>"

text \<open>A world whose remote side has a counter as its state.\<close>

definition fresh :: "nat world" where
  "fresh = \<lparr>net = 0, sent = [], stdout = []\<rparr>"

definition created :: response where
  "created =
     \<lparr>status_code = 201, reason = ''Created'', url = ''http://localhost:8000/register'',
      resp_text = ''{\"id\": 1, \"username\": \"alice\"}'',
      decoded = Some (PyDict [(''id'', PyInt 1), (''username'', PyStr ''alice'')])\<rparr>"

definition conflict :: response where
  "conflict =
     \<lparr>status_code = 400, reason = ''Bad Request'', url = ''http://localhost:8000/register'',
      resp_text = ''{\"detail\": \"Username already registered\"}'',
      decoded = Some (PyDict [(''detail'', PyStr ''Username already registered'')])\<rparr>"

definition multiple_choices :: response where
  "multiple_choices =
     \<lparr>status_code = 300, reason = ''Multiple Choices'', url = ''http://localhost:8000/register'',
      resp_text = ''{\"choices\": []}'',
      decoded = Some (PyDict [(''choices'', PyList [])])\<rparr>"

definition token_issued :: response where
  "token_issued =
     \<lparr>status_code = 200, reason = ''OK'', url = ''http://localhost:8000/login'',
      resp_text = ''{\"access_token\": \"abc\", \"token_type\": \"bearer\"}'',
      decoded = Some (PyDict [(''access_token'', PyStr ''abc''), (''token_type'', PyStr ''bearer'')])\<rparr>"

definition no_token :: response where
  "no_token =
     \<lparr>status_code = 200, reason = ''OK'', url = ''http://localhost:8000/login'',
      resp_text = ''{\"token_type\": \"bearer\"}'',
      decoded = Some (PyDict [(''token_type'', PyStr ''bearer'')])\<rparr>"

definition array_body :: response where
  "array_body =
     \<lparr>status_code = 200, reason = ''OK'', url = ''http://localhost:8000/login'',
      resp_text = ''[]'', decoded = Some (PyList [])\<rparr>"

definition poll :: "int \<Rightarrow> pyvalue" where
  "poll i = PyDict [(''id'', PyInt i)]"

definition poll_created :: response where
  "poll_created =
     \<lparr>status_code = 200, reason = ''OK'', url = ''http://localhost:8000/polls'',
      resp_text = ''{\"id\": 1}'',
      decoded = Some (poll 1)\<rparr>"

definition two_polls :: response where
  "two_polls =
     \<lparr>status_code = 200, reason = ''OK'',
      url = ''http://localhost:8000/polls?skip=0&limit=5'',
      resp_text = ''[{\"id\": 1}, {\"id\": 2}]'',
      decoded = Some (PyList [poll 1, poll 2])\<rparr>"

definition six_polls :: response where
  "six_polls =
     \<lparr>status_code = 200, reason = ''OK'',
      url = ''http://localhost:8000/polls?skip=0&limit=5'',
      resp_text =
        ''[{\"id\": 1}, {\"id\": 2}, {\"id\": 3}, {\"id\": 4}, {\"id\": 5}, {\"id\": 6}]'',
      decoded = Some (PyList [poll 1, poll 2, poll 3, poll 4, poll 5, poll 6])\<rparr>"

text \<open>
  A remote side with state: it counts the calls it has received; it answers every GET
  with two polls and every POST with a created user.
\<close>

definition counting :: "nat remote" where
  "counting n c =
     (if c_method c = GET then Completed two_polls else Completed created, Suc n)"

subsection \<open>Inside one call of the library: redirects\<close>

text \<open>
  \<open>requests.get\<close> and \<open>requests.post\<close> follow redirects unless told otherwise, and
  the module does not tell them otherwise. On the wire, a server answers one HTTP
  request by not answering at all, by a response that the library hands back, or by a
  redirect; for a redirect the library sends the follow-up request \<open>next\<close> that it
  builds from the response. It follows at most 30 redirects and then raises
  \<open>TooManyRedirects\<close>, a subclass of \<open>RequestException\<close>.

  \<open>follow\<close> is one call of the library seen from the wire: its state is the state of
  the server together with the list of HTTP requests sent so far. \<open>via_library\<close> makes
  a remote side of a server, so that the module's functions run against it as against
  any other remote side.
\<close>

datatype answer = Unreachable string | Final response | Redirect call

type_synonym 'n server = "'n \<Rightarrow> call \<Rightarrow> answer \<times> 'n"

fun follow :: "nat \<Rightarrow> 'n server \<Rightarrow> 'n \<times> call list \<Rightarrow> call \<Rightarrow> reply \<times> ('n \<times> call list)" where
  "follow 0 server (n, wire) c =
     (case server n c of
        (Unreachable msg, n') \<Rightarrow> (Failed msg, (n', wire @ [c]))
      | (Final r, n') \<Rightarrow> (Completed r, (n', wire @ [c]))
      | (Redirect next, n') \<Rightarrow> (Failed ''Exceeded 30 redirects.'', (n', wire @ [c])))"
| "follow (Suc fuel) server (n, wire) c =
     (case server n c of
        (Unreachable msg, n') \<Rightarrow> (Failed msg, (n', wire @ [c]))
      | (Final r, n') \<Rightarrow> (Completed r, (n', wire @ [c]))
      | (Redirect next, n') \<Rightarrow> follow fuel server (n', wire @ [c]) next)"

definition via_library :: "'n server \<Rightarrow> ('n \<times> call list) remote" where
  "via_library server = follow 30 server"

text \<open>
  A server that redirects the address without a slash after \<open>polls\<close> to the one with
  it, and answers every other request with two polls.
\<close>

definition slash_redirect :: "unit server" where
  "slash_redirect n c =
     (if c_url c = ''http://localhost:8000/polls?skip=0&limit=5''
      then Redirect (c\<lparr>c_url := ''http://localhost:8000/polls/?skip=0&limit=5''\<rparr>)
      else Final two_polls, n)"

text \<open>A world in which nothing has been sent on the wire yet.\<close>

definition offline :: "(unit \<times> call list) world" where
  "offline = \<lparr>net = ((), []), sent = [], stdout = []\<rparr>"

section \<open>Each function as a function of the reply\<close>

lemmas client_defs = requests_post_def requests_get_def requests_request_def print_def
  raise_for_status_def response_json_def Let_def returned_def returned_token_def printed_def

lemma py_get_raises:
  "py_get v k = Inl e \<Longrightarrow> \<not> is_HTTPError e \<and> \<not> is_RequestException e"
  by (cases v) (auto split: option.splits)

lemma register_user_reply:
  assumes "remote (net w) (request_of (Register username password)) = (rep, n')"
  shows "register_user remote username password w =
    (returned rep,
     w\<lparr>net := n', sent := sent w @ [request_of (Register username password)],
       stdout := stdout w @ printed ''during registration'' rep\<rparr>)"
  using assms
  by (cases rep) (auto simp: register_user_def client_defs split: option.splits)

lemma login_user_reply:
  assumes "remote (net w) (request_of (Login username password)) = (rep, n')"
  shows "login_user remote username password w =
    (returned_token rep,
     w\<lparr>net := n', sent := sent w @ [request_of (Login username password)],
       stdout := stdout w @ printed ''during login'' rep\<rparr>)"
  using assms
  by (cases rep) (auto simp: login_user_def client_defs split: option.splits sum.splits
           dest: py_get_raises)

lemma create_poll_reply:
  assumes "remote (net w) (request_of (CreatePoll question options token)) = (rep, n')"
  shows "create_poll remote question options token w =
    (returned rep,
     w\<lparr>net := n', sent := sent w @ [request_of (CreatePoll question options token)],
       stdout := stdout w @ printed ''during poll creation'' rep\<rparr>)"
  using assms
  by (cases rep) (auto simp: create_poll_def client_defs split: option.splits)

lemma get_polls_reply:
  assumes "remote (net w) (request_of (GetPolls skip_arg limit_arg)) = (rep, n')"
  shows "get_polls remote skip_arg limit_arg w =
    (returned rep,
     w\<lparr>net := n', sent := sent w @ [request_of (GetPolls skip_arg limit_arg)],
       stdout := stdout w @ printed ''while fetching polls'' rep\<rparr>)"
  using assms
  by (cases rep) (auto simp: get_polls_def client_defs split: option.splits)

lemma run_reply:
  assumes "remote (net w) (request_of op) = (rep, n')"
  shows "run remote op w =
    (result_of op rep,
     w\<lparr>net := n', sent := sent w @ [request_of op],
       stdout := stdout w @ printed (context_of op) rep\<rparr>)"
  using assms
  by (cases op)
     (simp_all add: register_user_reply login_user_reply create_poll_reply get_polls_reply)

lemma run_sent: "sent (snd (run remote op w)) = sent w @ [request_of op]"
  by (cases "remote (net w) (request_of op)") (simp add: run_reply)

lemma run_result: "fst (run remote op w) = result_of op (fst (remote (net w) (request_of op)))"
  by (cases "remote (net w) (request_of op)") (simp add: run_reply)

lemma run_stdout:
  "stdout (snd (run remote op w)) =
     stdout w @ printed (context_of op) (fst (remote (net w) (request_of op)))"
  by (cases "remote (net w) (request_of op)") (simp add: run_reply)

lemma run_net: "net (snd (run remote op w)) = snd (remote (net w) (request_of op))"
  by (cases "remote (net w) (request_of op)") (simp add: run_reply)

lemma same_function_result: "same_function a b \<Longrightarrow> result_of a = result_of b"
  by (cases a; cases b) (auto simp: fun_eq_iff)

lemma same_function_context: "same_function a b \<Longrightarrow> context_of a = context_of b"
  by (cases a; cases b) auto

lemma str_int_0: "str_int 0 = ''0''"
  by code_simp

lemma str_int_5: "str_int 5 = ''5''"
  by code_simp

lemma str_int_10: "str_int 10 = ''10''"
  by code_simp

lemma str_int_negative: "str_int (- 120) = ''-120''"
  by code_simp

section \<open>The requests issued and the values returned\<close>

text \<open>
  C4. For every username and password, \<open>register_user\<close> hands the library one POST
  to \<open>BASE_URL/register\<close> whose JSON body is the dict with exactly the keys
  \<open>username\<close> and \<open>password\<close>, with no headers and no form data; and when the reply
  to that request is a response with a 2xx status whose body decodes to \<open>v\<close>, the
  function returns \<open>v\<close>.
\<close>

theorem register_user_request_and_result:
  "sent (snd (register_user remote username password w)) =
     sent w @
     [\<lparr>c_method = POST, c_url = BASE_URL @ ''/register'', c_headers = None, c_data = None,
       c_json = Some (PyDict [(''username'', PyStr username), (''password'', PyStr password)])\<rparr>]
   \<and> (fst (remote (net w)
             \<lparr>c_method = POST, c_url = BASE_URL @ ''/register'', c_headers = None, c_data = None,
              c_json = Some (PyDict [(''username'', PyStr username),
                                     (''password'', PyStr password)])\<rparr>) = Completed r
        \<and> 200 \<le> status_code r \<and> status_code r < 300 \<and> decoded r = Some v
      \<longrightarrow> fst (register_user remote username password w) = Inr v)"
  using run_sent [of remote "Register username password" w]
        run_result [of remote "Register username password" w]
  by (auto simp: returned_def raise_for_status_def)

theorem register_user_request_and_result_witness:
  "sent (snd (register_user (always (Completed created)) ''alice'' ''secret'' world0)) =
     [\<lparr>c_method = POST, c_url = ''http://localhost:8000/register'', c_headers = None,
       c_data = None,
       c_json = Some (PyDict [(''username'', PyStr ''alice''), (''password'', PyStr ''secret'')])\<rparr>]
   \<and> 200 \<le> status_code created \<and> status_code created < 300
   \<and> fst (register_user (always (Completed created)) ''alice'' ''secret'' world0) =
       Inr (PyDict [(''id'', PyInt 1), (''username'', PyStr ''alice'')])"
  using register_user_request_and_result
          [of "always (Completed created)" "''alice''" "''secret''" world0 created
              "PyDict [(''id'', PyInt 1), (''username'', PyStr ''alice'')]"]
  by (simp add: always_def world0_def created_def BASE_URL_def)

text \<open>
  C7, as the specification states it, fails: one invocation does not always put
  exactly one HTTP request on the wire. The module leaves redirect following to the
  library, so when the server redirects \<open>/polls?skip=0&limit=5\<close> to
  \<open>/polls/?skip=0&limit=5\<close>, one call of \<open>get_polls\<close> makes one call into the library
  and the library sends two HTTP requests.
\<close>

theorem one_http_request_counterexample:
  "sent (snd (get_polls (via_library slash_redirect) (Some 0) (Some 5) offline)) =
     [\<lparr>c_method = GET, c_url = ''http://localhost:8000/polls?skip=0&limit=5'',
       c_headers = None, c_data = None, c_json = None\<rparr>]
   \<and> snd (net offline) = []
   \<and> snd (net (snd (get_polls (via_library slash_redirect) (Some 0) (Some 5) offline))) =
     [\<lparr>c_method = GET, c_url = ''http://localhost:8000/polls?skip=0&limit=5'',
       c_headers = None, c_data = None, c_json = None\<rparr>,
      \<lparr>c_method = GET, c_url = ''http://localhost:8000/polls/?skip=0&limit=5'',
       c_headers = None, c_data = None, c_json = None\<rparr>]
   \<and> fst (get_polls (via_library slash_redirect) (Some 0) (Some 5) offline) =
       Inr (PyList [poll 1, poll 2])"
  by code_simp

text \<open>
  C7, amended. Every invocation of any of the four functions makes exactly one call
  into the HTTP library, whatever the remote side does and also when the request
  fails: the module never retries and never calls the library a second time. How many
  HTTP requests that one call sends is decided inside the library.
\<close>

theorem one_library_call_per_invocation:
  "\<exists>c. sent (snd (run remote op w)) = sent w @ [c]"
  by (simp add: run_sent)

text \<open>
  C10. \<open>get_polls\<close> called with both arguments omitted behaves as
  \<open>get_polls(skip=0, limit=10)\<close> and requests \<open>BASE_URL/polls?skip=0&limit=10\<close>; with
  one argument omitted, that argument is 0 for \<open>skip\<close> and 10 for \<open>limit\<close>.
\<close>

theorem get_polls_defaults:
  "get_polls remote None None w = get_polls remote (Some 0) (Some 10) w
   \<and> get_polls remote None (Some limit) w = get_polls remote (Some 0) (Some limit) w
   \<and> get_polls remote (Some skip) None w = get_polls remote (Some skip) (Some 10) w
   \<and> sent (snd (get_polls remote None None w)) =
       sent w @
       [\<lparr>c_method = GET, c_url = BASE_URL @ ''/polls?skip=0&limit=10'', c_headers = None,
         c_data = None, c_json = None\<rparr>]"
  using run_sent [of remote "GetPolls None None" w]
  by (simp add: get_polls_def str_int_0 str_int_10)

text \<open>
  C2. For every username and password, \<open>login_user\<close> hands the library one POST to
  \<open>BASE_URL/login\<close> with the credentials as \<open>data\<close> (which the library sends as
  URL-encoded form fields) and no JSON body; and when the reply to that request is a
  response with a 2xx status whose JSON body is an object with the field
  \<open>access_token\<close>, the function returns the value of that field.
\<close>

theorem login_user_request_and_result:
  "sent (snd (login_user remote username password w)) =
     sent w @
     [\<lparr>c_method = POST, c_url = BASE_URL @ ''/login'', c_headers = None,
       c_data = Some (PyDict [(''username'', PyStr username), (''password'', PyStr password)]),
       c_json = None\<rparr>]
   \<and> (fst (remote (net w)
             \<lparr>c_method = POST, c_url = BASE_URL @ ''/login'', c_headers = None,
              c_data = Some (PyDict [(''username'', PyStr username),
                                     (''password'', PyStr password)]),
              c_json = None\<rparr>) = Completed r
        \<and> 200 \<le> status_code r \<and> status_code r < 300
        \<and> decoded r = Some (PyDict kvs) \<and> map_of kvs ''access_token'' = Some v
      \<longrightarrow> fst (login_user remote username password w) = Inr v)"
  using run_sent [of remote "Login username password" w]
        run_result [of remote "Login username password" w]
  by (auto simp: returned_token_def raise_for_status_def)

theorem login_user_request_and_result_witness:
  "sent (snd (login_user (always (Completed token_issued)) ''alice'' ''secret'' world0)) =
     [\<lparr>c_method = POST, c_url = ''http://localhost:8000/login'', c_headers = None,
       c_data = Some (PyDict [(''username'', PyStr ''alice''), (''password'', PyStr ''secret'')]),
       c_json = None\<rparr>]
   \<and> 200 \<le> status_code token_issued \<and> status_code token_issued < 300
   \<and> map_of [(''access_token'', PyStr ''abc''), (''token_type'', PyStr ''bearer'')]
        ''access_token'' = Some (PyStr ''abc'')
   \<and> fst (login_user (always (Completed token_issued)) ''alice'' ''secret'' world0) =
       Inr (PyStr ''abc'')"
  using login_user_request_and_result
          [of "always (Completed token_issued)" "''alice''" "''secret''" world0 token_issued
              "[(''access_token'', PyStr ''abc''), (''token_type'', PyStr ''bearer'')]"
              "PyStr ''abc''"]
  by (simp add: always_def world0_def token_issued_def BASE_URL_def)

text \<open>
  C5. For every question, list of options and token, \<open>create_poll\<close> hands the
  library one POST to \<open>BASE_URL/polls\<close> whose JSON body is the dict with exactly the
  keys \<open>question\<close> and \<open>options\<close> and whose only header is
  \<open>Authorization: Bearer <token>\<close>; and when the reply to that request is a response
  with a 2xx status whose body decodes to \<open>v\<close>, the function returns \<open>v\<close>.
\<close>

theorem create_poll_request_and_result:
  "sent (snd (create_poll remote question options token w)) =
     sent w @
     [\<lparr>c_method = POST, c_url = BASE_URL @ ''/polls'',
       c_headers = Some [(''Authorization'', ''Bearer '' @ token)], c_data = None,
       c_json = Some (PyDict [(''question'', PyStr question),
                              (''options'', PyList (map PyStr options))])\<rparr>]
   \<and> (fst (remote (net w)
             \<lparr>c_method = POST, c_url = BASE_URL @ ''/polls'',
              c_headers = Some [(''Authorization'', ''Bearer '' @ token)], c_data = None,
              c_json = Some (PyDict [(''question'', PyStr question),
                                     (''options'', PyList (map PyStr options))])\<rparr>)
          = Completed r
        \<and> 200 \<le> status_code r \<and> status_code r < 300 \<and> decoded r = Some v
      \<longrightarrow> fst (create_poll remote question options token w) = Inr v)"
  using run_sent [of remote "CreatePoll question options token" w]
        run_result [of remote "CreatePoll question options token" w]
  by (auto simp: returned_def raise_for_status_def)

theorem create_poll_request_and_result_witness:
  "sent (snd (create_poll (always (Completed poll_created)) ''Q'' [''a'', ''b''] ''abc'' world0)) =
     [\<lparr>c_method = POST, c_url = ''http://localhost:8000/polls'',
       c_headers = Some [(''Authorization'', ''Bearer abc'')], c_data = None,
       c_json = Some (PyDict [(''question'', PyStr ''Q''),
                              (''options'', PyList [PyStr ''a'', PyStr ''b''])])\<rparr>]
   \<and> 200 \<le> status_code poll_created \<and> status_code poll_created < 300
   \<and> fst (create_poll (always (Completed poll_created)) ''Q'' [''a'', ''b''] ''abc'' world0) =
       Inr (poll 1)"
  using create_poll_request_and_result
          [of "always (Completed poll_created)" "''Q''" "[''a'', ''b'']" "''abc''" world0
              poll_created "poll 1"]
  by (simp add: always_def world0_def poll_created_def BASE_URL_def)

text \<open>
  C6. For every \<open>skip\<close> and \<open>limit\<close>, \<open>get_polls\<close> hands the library one GET with
  no headers, no form data and no JSON body, to the address
  \<open>BASE_URL/polls?skip=<skip>&limit=<limit>\<close> with both numbers in decimal; and when
  the reply to that request is a response with a 2xx status whose body decodes to
  \<open>v\<close>, the function returns \<open>v\<close>.
\<close>

theorem get_polls_request_and_result:
  "sent (snd (get_polls remote (Some skip) (Some limit) w)) =
     sent w @
     [\<lparr>c_method = GET,
       c_url = BASE_URL @ ''/polls?skip='' @ str_int skip @ ''&limit='' @ str_int limit,
       c_headers = None, c_data = None, c_json = None\<rparr>]
   \<and> (fst (remote (net w)
             \<lparr>c_method = GET,
              c_url = BASE_URL @ ''/polls?skip='' @ str_int skip @ ''&limit='' @ str_int limit,
              c_headers = None, c_data = None, c_json = None\<rparr>) = Completed r
        \<and> 200 \<le> status_code r \<and> status_code r < 300 \<and> decoded r = Some v
      \<longrightarrow> fst (get_polls remote (Some skip) (Some limit) w) = Inr v)"
  using run_sent [of remote "GetPolls (Some skip) (Some limit)" w]
        run_result [of remote "GetPolls (Some skip) (Some limit)" w]
  by (auto simp: returned_def raise_for_status_def)

theorem get_polls_request_and_result_witness:
  "sent (snd (get_polls (always (Completed two_polls)) (Some 0) (Some 5) world0)) =
     [\<lparr>c_method = GET, c_url = ''http://localhost:8000/polls?skip=0&limit=5'',
       c_headers = None, c_data = None, c_json = None\<rparr>]
   \<and> 200 \<le> status_code two_polls \<and> status_code two_polls < 300
   \<and> fst (get_polls (always (Completed two_polls)) (Some 0) (Some 5) world0) =
       Inr (PyList [poll 1, poll 2])"
  using get_polls_request_and_result
          [of "always (Completed two_polls)" 0 5 world0 two_polls "PyList [poll 1, poll 2]"]
  by (simp add: always_def world0_def two_polls_def BASE_URL_def str_int_0 str_int_5)

section \<open>Failures and missing fields\<close>

lemma map_of_absent: "k \<notin> set (map fst kvs) \<Longrightarrow> map_of kvs k = None"
  by (induction kvs) auto

text \<open>
  C1, as the specification states it, fails: a request that completes with a status
  outside 200..299 does not always give \<open>None\<close>. \<open>raise_for_status\<close> raises only for
  400..599, so a response with status 300 and a JSON body is decoded and returned.
\<close>

theorem failure_non_2xx_counterexample:
  "\<not> (200 \<le> status_code multiple_choices \<and> status_code multiple_choices < 300)
   \<and> fst (register_user (always (Completed multiple_choices)) ''alice'' ''secret'' world0) =
       Inr (PyDict [(''choices'', PyList [])])
   \<and> Inr (PyDict [(''choices'', PyList [])]) \<noteq> (Inr PyNone :: exn + pyvalue)"
  using run_result [of "always (Completed multiple_choices)" "Register ''alice'' ''secret''" world0]
  by (simp add: always_def multiple_choices_def returned_def raise_for_status_def)

text \<open>
  C1, amended. For each of the four functions and every failure of its request,
  either at the transport level (the library raises before a response exists) or by a
  response with a status from 400 to 599, the function returns \<open>None\<close> and raises
  nothing. Both kinds of failure give the same value, so the result does not tell
  them apart. Here \<open>c\<close> is the call that the function issued.
\<close>

theorem failure_returns_None:
  "sent (snd (run remote op w)) = sent w @ [c]
   \<and> (fst (remote (net w) c) = Failed msg
       \<or> fst (remote (net w) c) = Completed r \<and> 400 \<le> status_code r \<and> status_code r < 600)
   \<longrightarrow> fst (run remote op w) = Inr PyNone"
proof (intro impI, elim conjE)
  assume issued: "sent (snd (run remote op w)) = sent w @ [c]"
    and failure: "fst (remote (net w) c) = Failed msg
       \<or> fst (remote (net w) c) = Completed r \<and> 400 \<le> status_code r \<and> status_code r < 600"
  from issued have c: "request_of op = c"
    by (simp add: run_sent)
  have "result_of op (fst (remote (net w) c)) = Inr PyNone"
    using failure
    by (cases op) (auto simp: returned_def returned_token_def raise_for_status_def)
  then show "fst (run remote op w) = Inr PyNone"
    by (simp add: run_result c)
qed

theorem failure_returns_None_witness:
  "fst (run (always (Failed ''Connection refused'')) (Login ''alice'' ''secret'') world0) = Inr PyNone
   \<and> 400 \<le> status_code conflict \<and> status_code conflict < 600
   \<and> fst (run (always (Completed conflict)) (Register ''alice'' ''secret'') world0) = Inr PyNone"
proof -
  have s1: "sent (snd (run (always (Failed ''Connection refused'')) (Login ''alice'' ''secret'')
                        world0)) =
            sent world0 @ [request_of (Login ''alice'' ''secret'')]"
    by (rule run_sent)
  have f1: "fst (always (Failed ''Connection refused'') (net world0)
                   (request_of (Login ''alice'' ''secret''))) = Failed ''Connection refused''"
    by (simp add: always_def)
  have s2: "sent (snd (run (always (Completed conflict)) (Register ''alice'' ''secret'') world0)) =
            sent world0 @ [request_of (Register ''alice'' ''secret'')]"
    by (rule run_sent)
  have f2: "fst (always (Completed conflict) (net world0)
                   (request_of (Register ''alice'' ''secret''))) = Completed conflict"
    by (simp add: always_def)
  have status: "400 \<le> status_code conflict \<and> status_code conflict < 600"
    by (simp add: conflict_def)
  have r1: "fst (run (always (Failed ''Connection refused'')) (Login ''alice'' ''secret'') world0)
              = Inr PyNone"
    using failure_returns_None
            [where remote = "always (Failed ''Connection refused'')"
               and op = "Login ''alice'' ''secret''" and w = world0
               and c = "request_of (Login ''alice'' ''secret'')"
               and msg = "''Connection refused''"]
          s1 f1
    by blast
  have r2: "fst (run (always (Completed conflict)) (Register ''alice'' ''secret'') world0)
              = Inr PyNone"
    using failure_returns_None
            [where remote = "always (Completed conflict)"
               and op = "Register ''alice'' ''secret''" and w = world0
               and c = "request_of (Register ''alice'' ''secret'')"
               and r = conflict]
          s2 f2 status
    by blast
  from r1 r2 status show ?thesis
    by blast
qed

text \<open>
  C3, as the specification states it, fails: \<open>get_polls(skip=0, limit=5)\<close> does not
  bound what it returns. When the remote side answers 200 with six records, all six
  are returned.
\<close>

theorem get_polls_limit_5_counterexample:
  "200 \<le> status_code six_polls \<and> status_code six_polls < 300
   \<and> fst (get_polls (always (Completed six_polls)) (Some 0) (Some 5) world0) =
       Inr (PyList [poll 1, poll 2, poll 3, poll 4, poll 5, poll 6])
   \<and> \<not> at_most_records 5 (PyList [poll 1, poll 2, poll 3, poll 4, poll 5, poll 6])"
  using run_result [of "always (Completed six_polls)" "GetPolls (Some 0) (Some 5)" world0]
  by (simp add: always_def six_polls_def returned_def raise_for_status_def)

text \<open>
  C3, amended. On every 2xx response \<open>get_polls(skip=0, limit=5)\<close> returns the
  decoded response body \<open>v\<close> unchanged, whatever \<open>v\<close> is: the function neither
  truncates nor checks. The value returned is therefore a sequence of at most 5
  records exactly when the body sent by the remote side is one.
\<close>

theorem get_polls_limit_5_passes_body_through:
  "fst (remote (net w)
          \<lparr>c_method = GET, c_url = BASE_URL @ ''/polls?skip=0&limit=5'', c_headers = None,
           c_data = None, c_json = None\<rparr>) = Completed r
   \<and> 200 \<le> status_code r \<and> status_code r < 300 \<and> decoded r = Some v
   \<longrightarrow> fst (get_polls remote (Some 0) (Some 5) w) = Inr v"
  using run_result [of remote "GetPolls (Some 0) (Some 5)" w]
  by (auto simp: returned_def raise_for_status_def str_int_0 str_int_5)

theorem get_polls_limit_5_passes_body_through_witness:
  "200 \<le> status_code two_polls \<and> status_code two_polls < 300
   \<and> decoded two_polls = Some (PyList [poll 1, poll 2])
   \<and> fst (get_polls (always (Completed two_polls)) (Some 0) (Some 5) world0) =
       Inr (PyList [poll 1, poll 2])
   \<and> at_most_records 5 (PyList [poll 1, poll 2])"
  using get_polls_limit_5_passes_body_through
          [of "always (Completed two_polls)" world0 two_polls "PyList [poll 1, poll 2]"]
  by (simp add: always_def world0_def two_polls_def)

text \<open>
  A 2xx login response whose JSON body is an object without the field
  \<open>access_token\<close> makes \<open>login_user\<close> return \<open>None\<close>, the value it also returns for
  a failed request.
\<close>

theorem login_user_object_without_token:
  "fst (remote (net w)
          \<lparr>c_method = POST, c_url = BASE_URL @ ''/login'', c_headers = None,
           c_data = Some (PyDict [(''username'', PyStr username),
                                  (''password'', PyStr password)]),
           c_json = None\<rparr>) = Completed r
   \<and> 200 \<le> status_code r \<and> status_code r < 300
   \<and> decoded r = Some (PyDict kvs) \<and> \<not> has_field (PyDict kvs) ''access_token''
   \<longrightarrow> fst (login_user remote username password w) = Inr PyNone"
  using run_result [of remote "Login username password" w]
  by (auto simp: returned_token_def raise_for_status_def map_of_absent)

theorem login_user_object_without_token_witness:
  "200 \<le> status_code no_token \<and> status_code no_token < 300
   \<and> \<not> has_field (PyDict [(''token_type'', PyStr ''bearer'')]) ''access_token''
   \<and> fst (login_user (always (Completed no_token)) ''alice'' ''secret'' world0) = Inr PyNone"
  using login_user_object_without_token
          [of "always (Completed no_token)" world0 "''alice''" "''secret''" no_token
              "[(''token_type'', PyStr ''bearer'')]"]
  by (simp add: always_def world0_def no_token_def)

text \<open>
  C9. The claim holds for object bodies, as shown above, and fails for the others:
  the docstring of \<open>login_user\<close> promises the token "if successful, otherwise None",
  and both \<open>except\<close> clauses return \<open>None\<close>, but on a 200 response whose JSON body is
  the array \<open>[]\<close> (a body without the field \<open>access_token\<close>) the call of \<open>.get\<close>
  raises \<open>AttributeError\<close>, which neither clause catches, and the exception reaches
  the caller.
\<close>

theorem login_user_array_body_raises:
  "200 \<le> status_code array_body \<and> status_code array_body < 300
   \<and> decoded array_body = Some (PyList [])
   \<and> \<not> has_field (PyList []) ''access_token''
   \<and> fst (login_user (always (Completed array_body)) ''alice'' ''secret'' world0) =
       Inl (AttributeError ''object has no attribute get'')"
  using run_result [of "always (Completed array_body)" "Login ''alice'' ''secret''" world0]
  by (simp add: always_def array_body_def returned_token_def raise_for_status_def)

section \<open>Calls do not influence each other\<close>

text \<open>
  C8. The module keeps nothing between calls: no function assigns to a variable of
  the module, so the world of the model has no component that belongs to the client.
  What a call leaves behind is outside the module: the request it issued, the lines
  it printed, and whatever the remote side did with the request.

  First part: running \<open>b\<close> after any call \<open>a\<close> gives the same result, issues the same
  request \<open>c\<close> and prints the same lines as running \<open>b\<close> without \<open>a\<close>, provided the
  remote side answers \<open>c\<close> in the same way; \<open>a\<close> and \<open>b\<close> are arbitrary, so this
  covers both orders. Second part: two calls \<open>b\<close> and \<open>b'\<close> of the same function with
  any arguments (credentials, token, question, options, page), in any worlds, return
  the same value and print the same lines when their requests get the same reply; the
  arguments therefore reach nothing but the request of their own call.
\<close>

theorem calls_are_independent:
  "(sent (snd (run remote b w)) = sent w @ [c]
    \<and> fst (remote (net (snd (run remote a w))) c) = fst (remote (net w) c)
    \<longrightarrow> fst (run remote b (snd (run remote a w))) = fst (run remote b w)
        \<and> sent (snd (run remote b (snd (run remote a w)))) = sent (snd (run remote a w)) @ [c]
        \<and> drop (length (stdout (snd (run remote a w))))
             (stdout (snd (run remote b (snd (run remote a w))))) =
           drop (length (stdout w)) (stdout (snd (run remote b w))))
   \<and> (same_function b b'
      \<and> sent (snd (run remote b w)) = sent w @ [c]
      \<and> sent (snd (run remote' b' w')) = sent w' @ [c']
      \<and> fst (remote (net w) c) = fst (remote' (net w') c')
    \<longrightarrow> fst (run remote b w) = fst (run remote' b' w')
        \<and> drop (length (stdout w)) (stdout (snd (run remote b w))) =
           drop (length (stdout w')) (stdout (snd (run remote' b' w'))))"
proof (intro conjI impI; elim conjE)
  assume issued: "sent (snd (run remote b w)) = sent w @ [c]"
    and reply: "fst (remote (net (snd (run remote a w))) c) = fst (remote (net w) c)"
  from issued have c: "request_of b = c"
    by (simp add: run_sent)
  from reply c
  have reply': "fst (remote (net (snd (run remote a w))) (request_of b)) =
                fst (remote (net w) (request_of b))"
    by simp
  show "fst (run remote b (snd (run remote a w))) = fst (run remote b w)"
    by (simp add: run_result reply')
  show "sent (snd (run remote b (snd (run remote a w)))) = sent (snd (run remote a w)) @ [c]"
    by (simp add: run_sent c)
  show "drop (length (stdout (snd (run remote a w))))
          (stdout (snd (run remote b (snd (run remote a w))))) =
        drop (length (stdout w)) (stdout (snd (run remote b w)))"
    by (simp add: run_stdout reply')
next
  assume same: "same_function b b'"
    and issued: "sent (snd (run remote b w)) = sent w @ [c]"
    and issued': "sent (snd (run remote' b' w')) = sent w' @ [c']"
    and reply: "fst (remote (net w) c) = fst (remote' (net w') c')"
  from issued have c: "request_of b = c"
    by (simp add: run_sent)
  from issued' have c': "request_of b' = c'"
    by (simp add: run_sent)
  from reply c c'
  have reply': "fst (remote (net w) (request_of b)) = fst (remote' (net w') (request_of b'))"
    by simp
  show "fst (run remote b w) = fst (run remote' b' w')"
    by (simp add: run_result reply' same_function_result [OF same])
  show "drop (length (stdout w)) (stdout (snd (run remote b w))) =
        drop (length (stdout w')) (stdout (snd (run remote' b' w')))"
    by (simp add: run_stdout reply' same_function_context [OF same])
qed

theorem calls_are_independent_witness:
  "net (snd (run counting (Register ''alice'' ''secret'') fresh)) = 1
   \<and> net fresh = 0
   \<and> fst (run counting (GetPolls (Some 0) (Some 5))
            (snd (run counting (Register ''alice'' ''secret'') fresh))) =
       fst (run counting (GetPolls (Some 0) (Some 5)) fresh)
   \<and> same_function (GetPolls (Some 0) (Some 5)) (GetPolls (Some 10) None)
   \<and> fst (run counting (GetPolls (Some 0) (Some 5)) fresh) =
       fst (run counting (GetPolls (Some 10) None) fresh)"
proof -
  have issued: "sent (snd (run counting (GetPolls (Some 0) (Some 5)) fresh)) =
                sent fresh @ [request_of (GetPolls (Some 0) (Some 5))]"
    by (rule run_sent)
  have issued': "sent (snd (run counting (GetPolls (Some 10) None) fresh)) =
                 sent fresh @ [request_of (GetPolls (Some 10) None)]"
    by (rule run_sent)
  have state: "net (snd (run counting (Register ''alice'' ''secret'') fresh)) = 1"
    by (simp only: run_net) (simp add: counting_def fresh_def)
  have reply: "fst (counting (net (snd (run counting (Register ''alice'' ''secret'') fresh)))
                      (request_of (GetPolls (Some 0) (Some 5)))) =
               fst (counting (net fresh) (request_of (GetPolls (Some 0) (Some 5))))"
    by (simp add: counting_def)
  have reply': "fst (counting (net fresh) (request_of (GetPolls (Some 0) (Some 5)))) =
                fst (counting (net fresh) (request_of (GetPolls (Some 10) None)))"
    by (simp add: counting_def)
  have same: "same_function (GetPolls (Some 0) (Some 5)) (GetPolls (Some 10) None)"
    by simp
  have start: "net fresh = 0"
    by (simp add: fresh_def)
  note independent =
    calls_are_independent
      [where remote = counting and b = "GetPolls (Some 0) (Some 5)" and w = fresh
         and c = "request_of (GetPolls (Some 0) (Some 5))"
         and a = "Register ''alice'' ''secret''"
         and b' = "GetPolls (Some 10) None" and remote' = counting and w' = fresh
         and c' = "request_of (GetPolls (Some 10) None)"]
  from independent issued issued' reply reply' same state start show ?thesis
    by blast
qed

end
